theory Spec2Isabelle
  imports Complex_Main
begin

section \<open>ASANN structure reader: the embedding\<close>

text \<open>
  The module \<^verbatim>\<open>asann/structure_reader.py\<close> is a thin adapter over two chemistry
  libraries, ASE and pymatgen. The libraries are not part of the repository: they enter
  the model as an environment that says which of them can be imported and what their
  file readers answer for a file name. Exceptions are values (\<open>Inl\<close> of a sum), the
  calls made into the libraries are logged, and the attribute reads on a library object
  (\<^verbatim>\<open>cell\<close>, \<^verbatim>\<open>get_positions()\<close>, \<^verbatim>\<open>lattice.matrix\<close>, ...) are total on an object
  of the class that has the attribute and raise AttributeError on any other object.
  Assertions are active (the interpreter's default mode).
\<close>

subsection \<open>Exceptions\<close>

text \<open>
  A Python exception: the names of its class and of the classes it inherits from
  (its method resolution order, most specific first) and its message.
  \<^verbatim>\<open>except C\<close> catches an exception when \<open>C\<close> is among these classes.
\<close>

datatype exc = Exc (exc_mro: "string list") (exc_msg: string)

definition isinstance :: "exc \<Rightarrow> string \<Rightarrow> bool" where
  "isinstance e c = (c \<in> set (exc_mro e))"

definition NotImplementedError :: exc where
  "NotImplementedError =
     Exc [''NotImplementedError'', ''RuntimeError'', ''Exception'']
         ''Cannot find any suitable library for reading file structures''"

definition AssertionError :: exc where
  "AssertionError = Exc [''AssertionError'', ''Exception''] []"

definition ImportError :: "string \<Rightarrow> exc" where
  "ImportError m = Exc [''ImportError'', ''Exception''] m"

definition AttributeError :: "string \<Rightarrow> exc" where
  "AttributeError a = Exc [''AttributeError'', ''Exception''] a"

definition NameError :: "string \<Rightarrow> exc" where
  "NameError n = Exc [''NameError'', ''Exception''] n"

definition TypeError :: "string \<Rightarrow> exc" where
  "TypeError m = Exc [''TypeError'', ''Exception''] m"

subsection \<open>The libraries\<close>

type_synonym filename = string

text \<open>Arrays of coordinates and cell vectors are passed through untouched.\<close>

type_synonym ndarray = "real list list"

text \<open>What the adapters read from an \<^verbatim>\<open>ase.Atoms\<close> object.\<close>

record ase_atoms =
  atoms_pbc :: "bool list"
  atoms_cell :: ndarray
  atoms_positions :: ndarray
  atoms_scaled_positions :: ndarray

text \<open>What the adapters read from a \<^verbatim>\<open>pymatgen.Structure\<close>.\<close>

record pym_structure =
  lattice_matrix :: ndarray
  frac_coords :: ndarray
  cart_coords :: ndarray

text \<open>A \<^verbatim>\<open>pymatgen.Molecule\<close> has cartesian coordinates only: no lattice.\<close>

record pym_molecule =
  mol_cart_coords :: ndarray

text \<open>The values the field \<^verbatim>\<open>self.structure\<close> can hold.\<close>

datatype lib_object =
  AtomsObj ase_atoms
| StructureObj pym_structure
| MoleculeObj pym_molecule

record environment =
  ase_importable :: bool
  pymatgen_importable :: bool
  ase_io_read :: "filename \<Rightarrow> exc + ase_atoms"
  pym_Structure_from_file :: "filename \<Rightarrow> exc + pym_structure"
  pym_Molecule_from_file :: "filename \<Rightarrow> exc + pym_molecule"

datatype lib_call =
  AseIoRead filename
| PymStructureFromFile filename
| PymMoleculeFromFile filename

subsection \<open>Loading the module (lines 10 to 30)\<close>

text \<open>
  The module's globals after the import checks. \<^verbatim>\<open>_has_pymatgen\<close> is bound only when
  the import of ASE failed: \<open>None\<close> is the unbound name.
\<close>

record module_globals =
  has_reader :: bool
  has_ase :: bool
  has_pymatgen :: "bool option"

definition warn_ase :: string where
  "warn_ase = ''Unable to import ASE for reading file structure, trying other librairies''"

definition warn_pymatgen :: string where
  "warn_pymatgen = ''Unable to import Pymatgen for reading file structure, trying other librairies''"

text \<open>The result of loading, and the warnings issued on the way.\<close>

definition load_module :: "environment \<Rightarrow> (exc + module_globals) \<times> string list" where
  "load_module E =
     (let g0 = \<lparr>has_reader = False, has_ase = False, has_pymatgen = None\<rparr>;
          (g1, w1) = (if ase_importable E
                      then (g0\<lparr>has_ase := True, has_reader := True\<rparr>, [])
                      else (g0\<lparr>has_ase := False\<rparr>, [warn_ase]));
          (g2, w2) = (if \<not> has_reader g1
                      then (if pymatgen_importable E
                            then (g1\<lparr>has_pymatgen := Some True, has_reader := True\<rparr>, w1)
                            else (g1\<lparr>has_pymatgen := Some False\<rparr>, w1 @ [warn_pymatgen]))
                      else (g1, w1))
      in if \<not> has_reader g2 then (Inl NotImplementedError, w2) else (Inr g2, w2))"

subsection \<open>Structure objects\<close>

datatype cls = AseStructure | PymatgenStructure

record structure_obj =
  obj_class :: cls
  structure_field :: lib_object
  pbc_enabled :: bool

text \<open>What \<^verbatim>\<open>__init__\<close> returns: nothing, or (wrongly, for Python) an object.\<close>

datatype init_return = ReturnsNone | ReturnsObject

type_synonym 'a outcome = "(exc + 'a) \<times> lib_call list"

text \<open>\<^verbatim>\<open>AseStructure.__init__\<close>: the state of \<^verbatim>\<open>self\<close> when the body ends.\<close>

definition AseStructure_init :: "environment \<Rightarrow> filename \<Rightarrow> (structure_obj \<times> init_return) outcome" where
  "AseStructure_init E filename =
     (if \<not> ase_importable E then (Inl (ImportError ''ase''), [])
      else case ase_io_read E filename of
             Inl e \<Rightarrow> (Inl e, [AseIoRead filename])
           | Inr a \<Rightarrow>
               (Inr (\<lparr>obj_class = AseStructure, structure_field = AtomsObj a,
                      pbc_enabled = list_all (\<lambda>b. b) (atoms_pbc a)\<rparr>, ReturnsNone),
                [AseIoRead filename]))"

text \<open>
  \<^verbatim>\<open>PymatgenStructure.__init__\<close>: a ValueError of \<^verbatim>\<open>Structure.from_file\<close> is caught
  and the file is read again as a molecule. The body ends with \<^verbatim>\<open>return(self)\<close>.
\<close>

definition PymatgenStructure_init :: "environment \<Rightarrow> filename \<Rightarrow> (structure_obj \<times> init_return) outcome" where
  "PymatgenStructure_init E filename =
     (if \<not> pymatgen_importable E then (Inl (ImportError ''pymatgen''), [])
      else case pym_Structure_from_file E filename of
             Inr s \<Rightarrow>
               (Inr (\<lparr>obj_class = PymatgenStructure, structure_field = StructureObj s,
                      pbc_enabled = True\<rparr>, ReturnsObject),
                [PymStructureFromFile filename])
           | Inl e \<Rightarrow>
               if isinstance e ''ValueError''
               then (case pym_Molecule_from_file E filename of
                       Inr m \<Rightarrow>
                         (Inr (\<lparr>obj_class = PymatgenStructure, structure_field = MoleculeObj m,
                                pbc_enabled = False\<rparr>, ReturnsObject),
                          [PymStructureFromFile filename, PymMoleculeFromFile filename])
                     | Inl e' \<Rightarrow>
                         (Inl e', [PymStructureFromFile filename, PymMoleculeFromFile filename]))
               else (Inl e, [PymStructureFromFile filename]))"

fun init_of :: "cls \<Rightarrow> environment \<Rightarrow> filename \<Rightarrow> (structure_obj \<times> init_return) outcome" where
  "init_of AseStructure = AseStructure_init"
| "init_of PymatgenStructure = PymatgenStructure_init"

text \<open>
  Calling a class, \<^verbatim>\<open>cls(filename)\<close>: Python runs \<^verbatim>\<open>__init__\<close> on a fresh object and
  raises TypeError when \<^verbatim>\<open>__init__\<close> returns anything but None.
\<close>

definition call_class :: "cls \<Rightarrow> environment \<Rightarrow> filename \<Rightarrow> structure_obj outcome" where
  "call_class c E filename =
     (case init_of c E filename of
        (Inl e, calls) \<Rightarrow> (Inl e, calls)
      | (Inr (self, ReturnsNone), calls) \<Rightarrow> (Inr self, calls)
      | (Inr (self, ReturnsObject), calls) \<Rightarrow>
          (Inl (TypeError ''__init__() should return None''), calls))"

text \<open>\<^verbatim>\<open>AbstractStructure.from_file\<close>, a class method inherited by both adapters.\<close>

definition from_file :: "cls \<Rightarrow> environment \<Rightarrow> filename \<Rightarrow> structure_obj outcome" where
  "from_file c E filename = call_class c E filename"

subsection \<open>The methods of the two adapters\<close>

text \<open>
  A method returns an array, None (\<open>Inr None\<close> of \<open>get_cell_matrix\<close>) or raises.
  No method assigns to a field of \<^verbatim>\<open>self\<close>.
\<close>

definition AseStructure_get_cell_matrix :: "structure_obj \<Rightarrow> exc + ndarray option" where
  "AseStructure_get_cell_matrix self =
     (if pbc_enabled self
      then (case structure_field self of
              AtomsObj a \<Rightarrow> Inr (Some (atoms_cell a))
            | _ \<Rightarrow> Inl (AttributeError ''cell''))
      else Inr None)"

definition AseStructure_get_frac_coords :: "structure_obj \<Rightarrow> exc + ndarray" where
  "AseStructure_get_frac_coords self =
     (if \<not> pbc_enabled self then Inl AssertionError
      else case structure_field self of
             AtomsObj a \<Rightarrow> Inr (atoms_scaled_positions a)
           | _ \<Rightarrow> Inl (AttributeError ''get_scaled_positions''))"

definition AseStructure_get_cart_coords :: "structure_obj \<Rightarrow> exc + ndarray" where
  "AseStructure_get_cart_coords self =
     (case structure_field self of
        AtomsObj a \<Rightarrow> Inr (atoms_positions a)
      | _ \<Rightarrow> Inl (AttributeError ''get_positions''))"

definition PymatgenStructure_get_cell_matrix :: "structure_obj \<Rightarrow> exc + ndarray option" where
  "PymatgenStructure_get_cell_matrix self =
     (if pbc_enabled self
      then (case structure_field self of
              StructureObj s \<Rightarrow> Inr (Some (lattice_matrix s))
            | _ \<Rightarrow> Inl (AttributeError ''lattice''))
      else Inr None)"

definition PymatgenStructure_get_frac_coords :: "structure_obj \<Rightarrow> exc + ndarray" where
  "PymatgenStructure_get_frac_coords self =
     (if \<not> pbc_enabled self then Inl AssertionError
      else case structure_field self of
             StructureObj s \<Rightarrow> Inr (frac_coords s)
           | _ \<Rightarrow> Inl (AttributeError ''frac_coords''))"

definition PymatgenStructure_get_cart_coords :: "structure_obj \<Rightarrow> exc + ndarray" where
  "PymatgenStructure_get_cart_coords self =
     (case structure_field self of
        StructureObj s \<Rightarrow> Inr (cart_coords s)
      | MoleculeObj m \<Rightarrow> Inr (mol_cart_coords m)
      | AtomsObj a \<Rightarrow> Inl (AttributeError ''cart_coords''))"

text \<open>
  The capability interface of \<^verbatim>\<open>AbstractStructure\<close>: the three abstract methods a
  concrete class supplies.
\<close>

record methods =
  get_cell_matrix :: "structure_obj \<Rightarrow> exc + ndarray option"
  get_frac_coords :: "structure_obj \<Rightarrow> exc + ndarray"
  get_cart_coords :: "structure_obj \<Rightarrow> exc + ndarray"

fun methods_of :: "cls \<Rightarrow> methods" where
  "methods_of AseStructure =
     \<lparr>get_cell_matrix = AseStructure_get_cell_matrix,
      get_frac_coords = AseStructure_get_frac_coords,
      get_cart_coords = AseStructure_get_cart_coords\<rparr>"
| "methods_of PymatgenStructure =
     \<lparr>get_cell_matrix = PymatgenStructure_get_cell_matrix,
      get_frac_coords = PymatgenStructure_get_frac_coords,
      get_cart_coords = PymatgenStructure_get_cart_coords\<rparr>"

text \<open>
  \<^verbatim>\<open>AbstractStructure.get_coords\<close>, written once in the base class; \<open>M\<close> holds the
  methods of the class of \<^verbatim>\<open>self\<close>.
\<close>

definition get_coords :: "methods \<Rightarrow> structure_obj \<Rightarrow> exc + ndarray" where
  "get_coords M self =
     (if pbc_enabled self then get_frac_coords M self else get_cart_coords M self)"

text \<open>A method call on an object: the result and the object afterwards.\<close>

datatype method_name = GetCellMatrix | GetFracCoords | GetCartCoords | GetCoords

datatype pyval = NoneVal | Array ndarray

fun call_method :: "method_name \<Rightarrow> structure_obj \<Rightarrow> (exc + pyval) \<times> structure_obj" where
  "call_method GetCellMatrix self =
     (map_sum id (case_option NoneVal Array) (get_cell_matrix (methods_of (obj_class self)) self), self)"
| "call_method GetFracCoords self =
     (map_sum id Array (get_frac_coords (methods_of (obj_class self)) self), self)"
| "call_method GetCartCoords self =
     (map_sum id Array (get_cart_coords (methods_of (obj_class self)) self), self)"
| "call_method GetCoords self =
     (map_sum id Array (get_coords (methods_of (obj_class self)) self), self)"

text \<open>Any sequence of method calls, whatever each of them returns or raises.\<close>

fun call_methods :: "method_name list \<Rightarrow> structure_obj \<Rightarrow> structure_obj" where
  "call_methods [] self = self"
| "call_methods (m # ms) self = call_methods ms (snd (call_method m self))"

subsection \<open>The factory\<close>

text \<open>
  \<^verbatim>\<open>structure_from_file\<close>: \<open>Inr None\<close> is the return of None when neither branch is
  taken; reading \<^verbatim>\<open>_has_pymatgen\<close> while it is unbound raises NameError.
\<close>

definition structure_from_file ::
  "module_globals \<Rightarrow> environment \<Rightarrow> filename \<Rightarrow> (structure_obj option) outcome" where
  "structure_from_file g E filename =
     (if has_ase g then apfst (map_sum id Some) (from_file AseStructure E filename)
      else case has_pymatgen g of
             None \<Rightarrow> (Inl (NameError ''_has_pymatgen''), [])
           | Some b \<Rightarrow>
               if b then apfst (map_sum id Some) (from_file PymatgenStructure E filename)
               else (Inr None, []))"

text \<open>
  A client of the module: it imports the module, which runs the import checks, and
  then calls a class or the factory. Nothing of the module exists when loading raised.
\<close>

datatype request = Construct cls filename | Factory filename

definition use_module :: "environment \<Rightarrow> request \<Rightarrow> (structure_obj option) outcome" where
  "use_module E req =
     (case fst (load_module E) of
        Inl e \<Rightarrow> (Inl e, [])
      | Inr g \<Rightarrow>
          (case req of
             Construct c filename \<Rightarrow> apfst (map_sum id Some) (call_class c E filename)
           | Factory filename \<Rightarrow> structure_from_file g E filename))"

subsection \<open>Concrete environments and files\<close>

definition cell0 :: ndarray where
  "cell0 = [[4, 0, 0], [0, 4, 0], [0, 0, 4]]"

definition bulk_atoms :: ase_atoms where
  "bulk_atoms = \<lparr>atoms_pbc = [True, True, True], atoms_cell = cell0,
                 atoms_positions = [[0, 0, 0], [2, 2, 2]],
                 atoms_scaled_positions = [[0, 0, 0], [1/2, 1/2, 1/2]]\<rparr>"

definition slab_atoms :: ase_atoms where
  "slab_atoms = \<lparr>atoms_pbc = [True, True, False], atoms_cell = cell0,
                 atoms_positions = [[0, 0, 0], [2, 2, 1]],
                 atoms_scaled_positions = [[0, 0, 0], [1/2, 1/2, 1/4]]\<rparr>"

definition bulk_structure :: pym_structure where
  "bulk_structure = \<lparr>lattice_matrix = cell0, frac_coords = [[0, 0, 0], [1/2, 1/2, 1/2]],
                     cart_coords = [[0, 0, 0], [2, 2, 2]]\<rparr>"

definition water_molecule :: pym_molecule where
  "water_molecule = \<lparr>mol_cart_coords = [[0, 0, 0], [1, 0, 0], [0, 1, 0]]\<rparr>"

definition no_cell_error :: exc where
  "no_cell_error = Exc [''ValueError'', ''Exception''] ''Unrecognized file extension''"

definition missing_file_error :: exc where
  "missing_file_error = Exc [''FileNotFoundError'', ''OSError'', ''Exception''] ''missing.cif''"

definition decode_error :: exc where
  "decode_error =
     Exc [''UnicodeDecodeError'', ''UnicodeError'', ''ValueError'', ''Exception''] ''garbage.bin''"

text \<open>
  The files of the examples: \<^verbatim>\<open>POSCAR\<close> is a crystal, \<^verbatim>\<open>slab.traj\<close> is periodic in
  two directions only, \<^verbatim>\<open>water.xyz\<close> has no cell, \<^verbatim>\<open>garbage.bin\<close> cannot be decoded,
  and no other file exists.
\<close>

definition read_ase :: "filename \<Rightarrow> exc + ase_atoms" where
  "read_ase f =
     (if f = ''POSCAR'' then Inr bulk_atoms
      else if f = ''slab.traj'' then Inr slab_atoms
      else Inl missing_file_error)"

definition read_structure :: "filename \<Rightarrow> exc + pym_structure" where
  "read_structure f =
     (if f = ''POSCAR'' then Inr bulk_structure
      else if f = ''water.xyz'' then Inl no_cell_error
      else if f = ''garbage.bin'' then Inl decode_error
      else Inl missing_file_error)"

definition read_molecule :: "filename \<Rightarrow> exc + pym_molecule" where
  "read_molecule f =
     (if f = ''water.xyz'' then Inr water_molecule
      else if f = ''garbage.bin'' then Inl decode_error
      else Inl missing_file_error)"

definition env :: "bool \<Rightarrow> bool \<Rightarrow> environment" where
  "env ase pym =
     \<lparr>ase_importable = ase, pymatgen_importable = pym, ase_io_read = read_ase,
      pym_Structure_from_file = read_structure, pym_Molecule_from_file = read_molecule\<rparr>"

text \<open>The objects that the initialisers leave for the example files.\<close>

definition bulk_ase_obj :: structure_obj where
  "bulk_ase_obj = \<lparr>obj_class = AseStructure, structure_field = AtomsObj bulk_atoms,
                   pbc_enabled = True\<rparr>"

definition slab_obj :: structure_obj where
  "slab_obj = \<lparr>obj_class = AseStructure, structure_field = AtomsObj slab_atoms,
               pbc_enabled = False\<rparr>"

definition bulk_pym_obj :: structure_obj where
  "bulk_pym_obj = \<lparr>obj_class = PymatgenStructure, structure_field = StructureObj bulk_structure,
                   pbc_enabled = True\<rparr>"

definition water_obj :: structure_obj where
  "water_obj = \<lparr>obj_class = PymatgenStructure, structure_field = MoleculeObj water_molecule,
                pbc_enabled = False\<rparr>"

text \<open>The globals of a module loaded with ASE, and of one loaded with pymatgen only.\<close>

definition globals_ase :: module_globals where
  "globals_ase = \<lparr>has_reader = True, has_ase = True, has_pymatgen = None\<rparr>"

definition globals_pymatgen :: module_globals where
  "globals_pymatgen = \<lparr>has_reader = True, has_ase = False, has_pymatgen = Some True\<rparr>"

text \<open>The adapter on whose behalf a call into a library is made.\<close>

fun adapter_of :: "lib_call \<Rightarrow> cls" where
  "adapter_of (AseIoRead f) = AseStructure"
| "adapter_of (PymStructureFromFile f) = PymatgenStructure"
| "adapter_of (PymMoleculeFromFile f) = PymatgenStructure"

section \<open>Properties\<close>

subsection \<open>What the definitions compute\<close>

lemma load_module_cases:
  "load_module E =
     (if ase_importable E
      then (Inr \<lparr>has_reader = True, has_ase = True, has_pymatgen = None\<rparr>, [])
      else if pymatgen_importable E
      then (Inr \<lparr>has_reader = True, has_ase = False, has_pymatgen = Some True\<rparr>, [warn_ase])
      else (Inl NotImplementedError, [warn_ase, warn_pymatgen]))"
  by (simp add: load_module_def)

lemma load_module_Inr:
  "fst (load_module E) = Inr g \<longleftrightarrow>
     (ase_importable E \<and> g = \<lparr>has_reader = True, has_ase = True, has_pymatgen = None\<rparr>)
     \<or> (\<not> ase_importable E \<and> pymatgen_importable E
         \<and> g = \<lparr>has_reader = True, has_ase = False, has_pymatgen = Some True\<rparr>)"
  by (auto simp: load_module_cases)

lemma call_class_Ase:
  "call_class AseStructure E f =
     (if \<not> ase_importable E then (Inl (ImportError ''ase''), [])
      else case ase_io_read E f of
             Inl e \<Rightarrow> (Inl e, [AseIoRead f])
           | Inr a \<Rightarrow> (Inr \<lparr>obj_class = AseStructure, structure_field = AtomsObj a,
                            pbc_enabled = list_all (\<lambda>b. b) (atoms_pbc a)\<rparr>, [AseIoRead f]))"
  by (simp add: call_class_def AseStructure_init_def split: sum.splits)

lemma call_class_Pymatgen:
  "call_class PymatgenStructure E f =
     (if \<not> pymatgen_importable E then (Inl (ImportError ''pymatgen''), [])
      else case pym_Structure_from_file E f of
             Inr s \<Rightarrow> (Inl (TypeError ''__init__() should return None''), [PymStructureFromFile f])
           | Inl e \<Rightarrow>
               if isinstance e ''ValueError''
               then (case pym_Molecule_from_file E f of
                       Inr m \<Rightarrow> (Inl (TypeError ''__init__() should return None''),
                                  [PymStructureFromFile f, PymMoleculeFromFile f])
                     | Inl e' \<Rightarrow> (Inl e', [PymStructureFromFile f, PymMoleculeFromFile f]))
               else (Inl e, [PymStructureFromFile f]))"
  by (simp add: call_class_def PymatgenStructure_init_def split: sum.splits)

lemma AseStructure_init_Inr:
  "fst (AseStructure_init E f) = Inr (self, r) \<longleftrightarrow>
     ase_importable E \<and> r = ReturnsNone \<and>
     (\<exists>a. ase_io_read E f = Inr a \<and>
          self = \<lparr>obj_class = AseStructure, structure_field = AtomsObj a,
                  pbc_enabled = list_all (\<lambda>b. b) (atoms_pbc a)\<rparr>)"
  by (auto simp: AseStructure_init_def split: sum.splits)

lemma PymatgenStructure_init_Inr:
  "fst (PymatgenStructure_init E f) = Inr (self, r) \<longleftrightarrow>
     pymatgen_importable E \<and> r = ReturnsObject \<and>
     ((\<exists>s. pym_Structure_from_file E f = Inr s \<and>
           self = \<lparr>obj_class = PymatgenStructure, structure_field = StructureObj s,
                   pbc_enabled = True\<rparr>)
      \<or> (\<exists>e m. pym_Structure_from_file E f = Inl e \<and> isinstance e ''ValueError'' \<and>
             pym_Molecule_from_file E f = Inr m \<and>
             self = \<lparr>obj_class = PymatgenStructure, structure_field = MoleculeObj m,
                     pbc_enabled = False\<rparr>))"
  by (auto simp: PymatgenStructure_init_def split: sum.splits)

lemma calls_of_Ase:
  "c \<in> set (snd (call_class AseStructure E f)) \<Longrightarrow> adapter_of c = AseStructure"
  by (auto simp: call_class_Ase split: if_splits sum.splits)

lemma calls_of_Pymatgen:
  "c \<in> set (snd (call_class PymatgenStructure E f)) \<Longrightarrow> adapter_of c = PymatgenStructure"
  by (auto simp: call_class_Pymatgen split: if_splits sum.splits)

lemma call_methods_unchanged: "call_methods ms self = self"
proof (induction ms)
  case Nil
  show ?case by simp
next
  case (Cons m ms)
  have "snd (call_method m self) = self" by (cases m) simp_all
  with Cons show ?case by simp
qed

lemma pymatgen_from_file_never_returns:
  "fst (from_file PymatgenStructure E f) \<noteq> Inr self"
  by (simp add: from_file_def call_class_Pymatgen split: sum.splits)

lemma init_examples:
  "AseStructure_init (env True True) ''POSCAR'' = (Inr (bulk_ase_obj, ReturnsNone), [AseIoRead ''POSCAR''])"
  "AseStructure_init (env True True) ''slab.traj'' = (Inr (slab_obj, ReturnsNone), [AseIoRead ''slab.traj''])"
  "PymatgenStructure_init (env True True) ''POSCAR'' =
     (Inr (bulk_pym_obj, ReturnsObject), [PymStructureFromFile ''POSCAR''])"
  "PymatgenStructure_init (env True True) ''water.xyz'' =
     (Inr (water_obj, ReturnsObject), [PymStructureFromFile ''water.xyz'', PymMoleculeFromFile ''water.xyz''])"
  by (simp_all add: AseStructure_init_def PymatgenStructure_init_def env_def read_ase_def
      read_structure_def read_molecule_def bulk_ase_obj_def slab_obj_def bulk_pym_obj_def
      water_obj_def bulk_atoms_def slab_atoms_def no_cell_error_def isinstance_def)

lemma load_examples:
  "load_module (env True True) = (Inr globals_ase, [])"
  "load_module (env True False) = (Inr globals_ase, [])"
  "load_module (env False True) = (Inr globals_pymatgen, [warn_ase])"
  by (simp_all add: load_module_cases env_def globals_ase_def globals_pymatgen_def)

subsection \<open>Coordinates\<close>

text \<open>
  C1. For every structure object, whatever class supplies the abstract methods,
  \<^verbatim>\<open>get_coords\<close> returns exactly the result of \<^verbatim>\<open>get_frac_coords\<close> when \<^verbatim>\<open>pbc_enabled\<close>
  is true and exactly the result of \<^verbatim>\<open>get_cart_coords\<close> when it is false; so it does
  for the two adapters.
\<close>

theorem get_coords_dispatch:
  "get_coords M self =
     (if pbc_enabled self then get_frac_coords M self else get_cart_coords M self)
   \<and> get_coords (methods_of AseStructure) self =
     (if pbc_enabled self then AseStructure_get_frac_coords self
      else AseStructure_get_cart_coords self)
   \<and> get_coords (methods_of PymatgenStructure) self =
     (if pbc_enabled self then PymatgenStructure_get_frac_coords self
      else PymatgenStructure_get_cart_coords self)"
  by (simp add: get_coords_def)

text \<open>
  The dispatch on three objects: a crystal read by ASE, a slab that is not periodic in
  every direction, and a molecule read by pymatgen.
\<close>

theorem get_coords_dispatch_witness:
  "get_coords (methods_of AseStructure) bulk_ase_obj = Inr [[0, 0, 0], [1/2, 1/2, 1/2]]
   \<and> get_coords (methods_of AseStructure) slab_obj = Inr [[0, 0, 0], [2, 2, 1]]
   \<and> get_coords (methods_of PymatgenStructure) water_obj = Inr [[0, 0, 0], [1, 0, 0], [0, 1, 0]]"
  using get_coords_dispatch [of "methods_of AseStructure" bulk_ase_obj]
    get_coords_dispatch [of "methods_of AseStructure" slab_obj]
    get_coords_dispatch [of "methods_of PymatgenStructure" water_obj]
  by (simp add: bulk_ase_obj_def slab_obj_def water_obj_def AseStructure_get_frac_coords_def
      AseStructure_get_cart_coords_def PymatgenStructure_get_cart_coords_def bulk_atoms_def
      slab_atoms_def water_molecule_def)

text \<open>
  C4. \<^verbatim>\<open>get_frac_coords\<close> of either adapter raises AssertionError on every object whose
  \<^verbatim>\<open>pbc_enabled\<close> is false. On an object that an initialiser has filled and whose
  \<^verbatim>\<open>pbc_enabled\<close> is true, the assertion holds and the fractional coordinates of the
  library object read from the file are returned.
\<close>

theorem get_frac_coords_requires_pbc:
  "(\<not> pbc_enabled self \<longrightarrow>
      AseStructure_get_frac_coords self = Inl AssertionError
      \<and> PymatgenStructure_get_frac_coords self = Inl AssertionError)
   \<and> (fst (AseStructure_init E f) = Inr (a_obj, r) \<and> pbc_enabled a_obj \<longrightarrow>
        (\<exists>a. ase_io_read E f = Inr a
           \<and> AseStructure_get_frac_coords a_obj = Inr (atoms_scaled_positions a)))
   \<and> (fst (PymatgenStructure_init E f') = Inr (p_obj, r') \<and> pbc_enabled p_obj \<longrightarrow>
        (\<exists>s. pym_Structure_from_file E f' = Inr s
           \<and> PymatgenStructure_get_frac_coords p_obj = Inr (frac_coords s)))"
proof (intro conjI impI)
  assume "fst (AseStructure_init E f) = Inr (a_obj, r) \<and> pbc_enabled a_obj"
  then show "\<exists>a. ase_io_read E f = Inr a
           \<and> AseStructure_get_frac_coords a_obj = Inr (atoms_scaled_positions a)"
    by (auto simp: AseStructure_init_Inr AseStructure_get_frac_coords_def)
next
  assume "fst (PymatgenStructure_init E f') = Inr (p_obj, r') \<and> pbc_enabled p_obj"
  then show "\<exists>s. pym_Structure_from_file E f' = Inr s
           \<and> PymatgenStructure_get_frac_coords p_obj = Inr (frac_coords s)"
    by (auto simp: PymatgenStructure_init_Inr PymatgenStructure_get_frac_coords_def)
qed (simp_all add: AseStructure_get_frac_coords_def PymatgenStructure_get_frac_coords_def)

text \<open>
  The slab fails the assertion under both classes; the crystal yields its fractional
  coordinates under both.
\<close>

theorem get_frac_coords_requires_pbc_witness:
  "\<not> pbc_enabled slab_obj
   \<and> AseStructure_get_frac_coords slab_obj = Inl AssertionError
   \<and> PymatgenStructure_get_frac_coords slab_obj = Inl AssertionError
   \<and> fst (AseStructure_init (env True True) ''POSCAR'') = Inr (bulk_ase_obj, ReturnsNone)
   \<and> pbc_enabled bulk_ase_obj
   \<and> AseStructure_get_frac_coords bulk_ase_obj = Inr [[0, 0, 0], [1/2, 1/2, 1/2]]
   \<and> fst (PymatgenStructure_init (env True True) ''POSCAR'') = Inr (bulk_pym_obj, ReturnsObject)
   \<and> pbc_enabled bulk_pym_obj
   \<and> PymatgenStructure_get_frac_coords bulk_pym_obj = Inr [[0, 0, 0], [1/2, 1/2, 1/2]]"
  using get_frac_coords_requires_pbc [of slab_obj "env True True" "''POSCAR''" bulk_ase_obj
      ReturnsNone "''POSCAR''" bulk_pym_obj ReturnsObject]
  by (simp add: init_examples)
     (simp add: slab_obj_def bulk_ase_obj_def bulk_pym_obj_def env_def read_ase_def
        read_structure_def bulk_atoms_def bulk_structure_def)

text \<open>
  C8. On an object that an initialiser has filled, \<^verbatim>\<open>get_cell_matrix\<close> returns the
  cell (ASE) or the lattice matrix (pymatgen) of the library object when \<^verbatim>\<open>pbc_enabled\<close>
  is true and None when it is false: in both cases it returns and does not raise.
  On any object at all whose \<^verbatim>\<open>pbc_enabled\<close> is false it returns None.
\<close>

theorem get_cell_matrix_result:
  "(fst (AseStructure_init E f) = Inr (a_obj, r) \<longrightarrow>
      (\<exists>a. ase_io_read E f = Inr a
         \<and> AseStructure_get_cell_matrix a_obj =
             (if pbc_enabled a_obj then Inr (Some (atoms_cell a)) else Inr None)))
   \<and> (fst (PymatgenStructure_init E f') = Inr (p_obj, r') \<longrightarrow>
        (if pbc_enabled p_obj
         then \<exists>s. pym_Structure_from_file E f' = Inr s
                \<and> PymatgenStructure_get_cell_matrix p_obj = Inr (Some (lattice_matrix s))
         else PymatgenStructure_get_cell_matrix p_obj = Inr None))
   \<and> (\<not> pbc_enabled self \<longrightarrow>
        AseStructure_get_cell_matrix self = Inr None
        \<and> PymatgenStructure_get_cell_matrix self = Inr None)"
proof (intro conjI impI)
  assume "fst (AseStructure_init E f) = Inr (a_obj, r)"
  then show "\<exists>a. ase_io_read E f = Inr a
         \<and> AseStructure_get_cell_matrix a_obj =
             (if pbc_enabled a_obj then Inr (Some (atoms_cell a)) else Inr None)"
    by (auto simp: AseStructure_init_Inr AseStructure_get_cell_matrix_def)
next
  assume "fst (PymatgenStructure_init E f') = Inr (p_obj, r')"
  then show "if pbc_enabled p_obj
         then \<exists>s. pym_Structure_from_file E f' = Inr s
                \<and> PymatgenStructure_get_cell_matrix p_obj = Inr (Some (lattice_matrix s))
         else PymatgenStructure_get_cell_matrix p_obj = Inr None"
    by (auto simp: PymatgenStructure_init_Inr PymatgenStructure_get_cell_matrix_def)
qed (simp_all add: AseStructure_get_cell_matrix_def PymatgenStructure_get_cell_matrix_def)

text \<open>
  The crystal has the cell \<open>cell0\<close> under both adapters; the molecule has none.
\<close>

theorem get_cell_matrix_result_witness:
  "fst (AseStructure_init (env True True) ''POSCAR'') = Inr (bulk_ase_obj, ReturnsNone)
   \<and> AseStructure_get_cell_matrix bulk_ase_obj = Inr (Some cell0)
   \<and> fst (PymatgenStructure_init (env True True) ''POSCAR'') = Inr (bulk_pym_obj, ReturnsObject)
   \<and> PymatgenStructure_get_cell_matrix bulk_pym_obj = Inr (Some cell0)
   \<and> \<not> pbc_enabled water_obj
   \<and> AseStructure_get_cell_matrix water_obj = Inr None
   \<and> PymatgenStructure_get_cell_matrix water_obj = Inr None"
  using get_cell_matrix_result [of "env True True" "''POSCAR''" bulk_ase_obj ReturnsNone
      "''POSCAR''" bulk_pym_obj ReturnsObject water_obj]
  by (simp add: init_examples)
     (simp add: bulk_ase_obj_def bulk_pym_obj_def water_obj_def env_def read_ase_def
        read_structure_def bulk_atoms_def bulk_structure_def)

subsection \<open>The flag \<^verbatim>\<open>pbc_enabled\<close>\<close>

text \<open>
  C7. The flag that \<^verbatim>\<open>__init__\<close> sets. \<^verbatim>\<open>AseStructure\<close>: whenever \<^verbatim>\<open>ase.io.read\<close>
  returns an atoms object, the initialiser succeeds and sets the flag to the conjunction
  of that object's periodic-boundary flags. \<^verbatim>\<open>PymatgenStructure\<close>: whenever the file is
  read as a periodic \<^verbatim>\<open>Structure\<close>, the initialiser sets the flag to true; whenever that
  read raises a ValueError and the file is read as a \<^verbatim>\<open>Molecule\<close>, it sets the flag to
  false. Conversely, an initialiser that has succeeded has set the flag in one of these
  ways: true exactly when all flags of the atoms are true (ASE), true exactly when the
  file was read as a \<^verbatim>\<open>Structure\<close> and false exactly when a \<^verbatim>\<open>Molecule\<close> is held
  (pymatgen). No sequence of method calls changes the object, hence the flag.
\<close>

theorem pbc_enabled_set_at_construction:
  "(ase_importable E \<and> ase_io_read E f = Inr a \<longrightarrow>
      AseStructure_init E f =
        (Inr (\<lparr>obj_class = AseStructure, structure_field = AtomsObj a,
               pbc_enabled = (\<forall>b \<in> set (atoms_pbc a). b)\<rparr>, ReturnsNone),
         [AseIoRead f]))
   \<and> (pymatgen_importable E \<and> pym_Structure_from_file E f1 = Inr s \<longrightarrow>
        PymatgenStructure_init E f1 =
          (Inr (\<lparr>obj_class = PymatgenStructure, structure_field = StructureObj s,
                 pbc_enabled = True\<rparr>, ReturnsObject),
           [PymStructureFromFile f1]))
   \<and> (pymatgen_importable E \<and> pym_Structure_from_file E f2 = Inl e
        \<and> isinstance e ''ValueError'' \<and> pym_Molecule_from_file E f2 = Inr m \<longrightarrow>
        PymatgenStructure_init E f2 =
          (Inr (\<lparr>obj_class = PymatgenStructure, structure_field = MoleculeObj m,
                 pbc_enabled = False\<rparr>, ReturnsObject),
           [PymStructureFromFile f2, PymMoleculeFromFile f2]))
   \<and> (fst (AseStructure_init E f3) = Inr (a_obj, r) \<longrightarrow>
        (\<exists>a'. ase_io_read E f3 = Inr a'
           \<and> (pbc_enabled a_obj \<longleftrightarrow> (\<forall>b \<in> set (atoms_pbc a'). b))))
   \<and> (fst (PymatgenStructure_init E f4) = Inr (p_obj, r') \<longrightarrow>
        (pbc_enabled p_obj \<longleftrightarrow> (\<exists>s'. pym_Structure_from_file E f4 = Inr s'))
        \<and> (\<not> pbc_enabled p_obj \<longleftrightarrow> (\<exists>m'. structure_field p_obj = MoleculeObj m')))
   \<and> call_methods ms self = self
   \<and> pbc_enabled (call_methods ms self) = pbc_enabled self"
proof (intro conjI impI)
  assume "ase_importable E \<and> ase_io_read E f = Inr a"
  then show "AseStructure_init E f =
        (Inr (\<lparr>obj_class = AseStructure, structure_field = AtomsObj a,
               pbc_enabled = (\<forall>b \<in> set (atoms_pbc a). b)\<rparr>, ReturnsNone),
         [AseIoRead f])"
    by (simp add: AseStructure_init_def list_all_iff)
next
  assume "pymatgen_importable E \<and> pym_Structure_from_file E f1 = Inr s"
  then show "PymatgenStructure_init E f1 =
          (Inr (\<lparr>obj_class = PymatgenStructure, structure_field = StructureObj s,
                 pbc_enabled = True\<rparr>, ReturnsObject),
           [PymStructureFromFile f1])"
    by (simp add: PymatgenStructure_init_def)
next
  assume "pymatgen_importable E \<and> pym_Structure_from_file E f2 = Inl e
        \<and> isinstance e ''ValueError'' \<and> pym_Molecule_from_file E f2 = Inr m"
  then show "PymatgenStructure_init E f2 =
          (Inr (\<lparr>obj_class = PymatgenStructure, structure_field = MoleculeObj m,
                 pbc_enabled = False\<rparr>, ReturnsObject),
           [PymStructureFromFile f2, PymMoleculeFromFile f2])"
    by (simp add: PymatgenStructure_init_def)
next
  assume "fst (AseStructure_init E f3) = Inr (a_obj, r)"
  then show "\<exists>a'. ase_io_read E f3 = Inr a'
         \<and> (pbc_enabled a_obj \<longleftrightarrow> (\<forall>b \<in> set (atoms_pbc a'). b))"
    by (auto simp: AseStructure_init_Inr list_all_iff)
next
  assume p: "fst (PymatgenStructure_init E f4) = Inr (p_obj, r')"
  then show "pbc_enabled p_obj \<longleftrightarrow> (\<exists>s'. pym_Structure_from_file E f4 = Inr s')"
    by (auto simp: PymatgenStructure_init_Inr)
  from p show "\<not> pbc_enabled p_obj \<longleftrightarrow> (\<exists>m'. structure_field p_obj = MoleculeObj m')"
    by (auto simp: PymatgenStructure_init_Inr)
next
  show "call_methods ms self = self"
    by (rule call_methods_unchanged)
  show "pbc_enabled (call_methods ms self) = pbc_enabled self"
    by (simp add: call_methods_unchanged)
qed

text \<open>
  A crystal read by either adapter gets the flag true; the slab, periodic in two
  directions only, and the file without a cell, read as a molecule, get it false;
  three method calls on the crystal leave the object as it was.
\<close>

theorem pbc_enabled_set_at_construction_witness:
  "ase_importable (env True True) \<and> pymatgen_importable (env True True)
   \<and> ase_io_read (env True True) ''POSCAR'' = Inr bulk_atoms
   \<and> AseStructure_init (env True True) ''POSCAR'' =
       (Inr (bulk_ase_obj, ReturnsNone), [AseIoRead ''POSCAR''])
   \<and> pbc_enabled bulk_ase_obj
   \<and> pym_Structure_from_file (env True True) ''POSCAR'' = Inr bulk_structure
   \<and> PymatgenStructure_init (env True True) ''POSCAR'' =
       (Inr (bulk_pym_obj, ReturnsObject), [PymStructureFromFile ''POSCAR''])
   \<and> pbc_enabled bulk_pym_obj
   \<and> pym_Structure_from_file (env True True) ''water.xyz'' = Inl no_cell_error
   \<and> isinstance no_cell_error ''ValueError''
   \<and> pym_Molecule_from_file (env True True) ''water.xyz'' = Inr water_molecule
   \<and> PymatgenStructure_init (env True True) ''water.xyz'' =
       (Inr (water_obj, ReturnsObject),
        [PymStructureFromFile ''water.xyz'', PymMoleculeFromFile ''water.xyz''])
   \<and> \<not> pbc_enabled water_obj
   \<and> fst (AseStructure_init (env True True) ''slab.traj'') = Inr (slab_obj, ReturnsNone)
   \<and> ase_io_read (env True True) ''slab.traj'' = Inr slab_atoms
   \<and> atoms_pbc slab_atoms = [True, True, False]
   \<and> \<not> pbc_enabled slab_obj
   \<and> call_methods [GetCoords, GetFracCoords, GetCellMatrix] bulk_ase_obj = bulk_ase_obj
   \<and> pbc_enabled (call_methods [GetCoords, GetFracCoords, GetCellMatrix] bulk_ase_obj)"
proof -
  have i: "ase_importable (env True True)" "pymatgen_importable (env True True)"
    by (simp_all add: env_def)
  have r: "ase_io_read (env True True) ''POSCAR'' = Inr bulk_atoms"
    "ase_io_read (env True True) ''slab.traj'' = Inr slab_atoms"
    "pym_Structure_from_file (env True True) ''POSCAR'' = Inr bulk_structure"
    "pym_Structure_from_file (env True True) ''water.xyz'' = Inl no_cell_error"
    "pym_Molecule_from_file (env True True) ''water.xyz'' = Inr water_molecule"
    by (simp_all add: env_def read_ase_def read_structure_def read_molecule_def)
  have v: "isinstance no_cell_error ''ValueError''"
    by (simp add: no_cell_error_def isinstance_def)
  have b: "atoms_pbc bulk_atoms = [True, True, True]" "atoms_pbc slab_atoms = [True, True, False]"
    by (simp_all add: bulk_atoms_def slab_atoms_def)
  note t = pbc_enabled_set_at_construction [of "env True True" "''POSCAR''" bulk_atoms "''POSCAR''" bulk_structure
      "''water.xyz''" no_cell_error water_molecule "''slab.traj''" slab_obj ReturnsNone
      "''water.xyz''" water_obj ReturnsObject "[GetCoords, GetFracCoords, GetCellMatrix]"
      bulk_ase_obj]
  have o: "pbc_enabled bulk_ase_obj" "pbc_enabled bulk_pym_obj" "\<not> pbc_enabled water_obj"
    "\<not> pbc_enabled slab_obj"
    by (simp_all add: bulk_ase_obj_def bulk_pym_obj_def water_obj_def slab_obj_def)
  have c: "AseStructure_init (env True True) ''POSCAR'' =
       (Inr (bulk_ase_obj, ReturnsNone), [AseIoRead ''POSCAR''])
     \<and> PymatgenStructure_init (env True True) ''POSCAR'' =
       (Inr (bulk_pym_obj, ReturnsObject), [PymStructureFromFile ''POSCAR''])
     \<and> PymatgenStructure_init (env True True) ''water.xyz'' =
       (Inr (water_obj, ReturnsObject),
        [PymStructureFromFile ''water.xyz'', PymMoleculeFromFile ''water.xyz''])
     \<and> call_methods [GetCoords, GetFracCoords, GetCellMatrix] bulk_ase_obj = bulk_ase_obj"
    using t i r v b
    by (simp add: bulk_ase_obj_def bulk_pym_obj_def water_obj_def)
  have d: "fst (AseStructure_init (env True True) ''slab.traj'') = Inr (slab_obj, ReturnsNone)"
    by (simp add: init_examples)
  show ?thesis
    using i r v b o c d by simp
qed

subsection \<open>Errors of the readers\<close>

text \<open>
  C9. In \<^verbatim>\<open>PymatgenStructure.__init__\<close>, when \<^verbatim>\<open>Structure.from_file\<close> raises an
  exception that is a ValueError, the exception is caught, \<^verbatim>\<open>Molecule.from_file\<close> is
  called on the same file name and, when it returns, \<^verbatim>\<open>pbc_enabled\<close> is false and the
  object holds the molecule. An exception that is not a ValueError is not caught: no
  second read happens and the exception leaves \<^verbatim>\<open>__init__\<close> and the call of the class.
\<close>

theorem pymatgen_value_error_fallback:
  assumes "pymatgen_importable E" and "pym_Structure_from_file E f = Inl e"
  shows "(isinstance e ''ValueError'' \<longrightarrow>
            PymatgenStructure_init E f =
              (map_sum id
                 (\<lambda>m. (\<lparr>obj_class = PymatgenStructure, structure_field = MoleculeObj m,
                         pbc_enabled = False\<rparr>, ReturnsObject))
                 (pym_Molecule_from_file E f),
               [PymStructureFromFile f, PymMoleculeFromFile f]))
       \<and> (\<not> isinstance e ''ValueError'' \<longrightarrow>
            PymatgenStructure_init E f = (Inl e, [PymStructureFromFile f])
            \<and> call_class PymatgenStructure E f = (Inl e, [PymStructureFromFile f]))"
  using assms
  by (simp add: PymatgenStructure_init_def call_class_Pymatgen split: sum.splits)

text \<open>
  A file without a cell: the ValueError is caught and the molecule is read.
\<close>

theorem pymatgen_value_error_fallback_witness:
  "pymatgen_importable (env False True)
   \<and> pym_Structure_from_file (env False True) ''water.xyz'' = Inl no_cell_error
   \<and> isinstance no_cell_error ''ValueError''
   \<and> PymatgenStructure_init (env False True) ''water.xyz'' =
       (Inr (water_obj, ReturnsObject),
        [PymStructureFromFile ''water.xyz'', PymMoleculeFromFile ''water.xyz''])"
proof -
  have i: "pymatgen_importable (env False True)" by (simp add: env_def)
  have r: "pym_Structure_from_file (env False True) ''water.xyz'' = Inl no_cell_error"
    by (simp add: env_def read_structure_def)
  have v: "isinstance no_cell_error ''ValueError''"
    by (simp add: no_cell_error_def isinstance_def)
  have m: "pym_Molecule_from_file (env False True) ''water.xyz'' = Inr water_molecule"
    by (simp add: env_def read_molecule_def)
  show ?thesis
    using i r v pymatgen_value_error_fallback [OF i r]
    by (simp add: m water_obj_def)
qed

text \<open>
  C5, as stated, fails: the claim has every error of a reader reach the caller
  unchanged. On \<^verbatim>\<open>water.xyz\<close> the reader \<^verbatim>\<open>Structure.from_file\<close> raises a ValueError,
  \<^verbatim>\<open>__init__\<close> catches it and ends without an error, and what the caller of the class
  receives is not that ValueError.
\<close>

theorem pymatgen_suppresses_value_error:
  "pym_Structure_from_file (env False True) ''water.xyz'' = Inl no_cell_error
   \<and> PymatgenStructure_init (env False True) ''water.xyz'' =
       (Inr (water_obj, ReturnsObject),
        [PymStructureFromFile ''water.xyz'', PymMoleculeFromFile ''water.xyz''])
   \<and> fst (call_class PymatgenStructure (env False True) ''water.xyz'') \<noteq> Inl no_cell_error"
  by (simp add: call_class_def PymatgenStructure_init_def env_def read_structure_def
      read_molecule_def water_obj_def no_cell_error_def isinstance_def TypeError_def)

text \<open>
  C5, amended. Constructing an \<^verbatim>\<open>AseStructure\<close> propagates every error of
  \<^verbatim>\<open>ase.io.read\<close> unchanged. Constructing a \<^verbatim>\<open>PymatgenStructure\<close> propagates unchanged
  every error of \<^verbatim>\<open>Structure.from_file\<close> that is not a ValueError, and every error of
  the second read by \<^verbatim>\<open>Molecule.from_file\<close>; a ValueError of \<^verbatim>\<open>Structure.from_file\<close>
  is caught and replaced by that second read.
\<close>

theorem reader_errors_propagate:
  "(ase_importable E \<and> ase_io_read E f = Inl e \<longrightarrow>
      call_class AseStructure E f = (Inl e, [AseIoRead f]))
   \<and> (pymatgen_importable E \<and> pym_Structure_from_file E f1 = Inl e1
        \<and> \<not> isinstance e1 ''ValueError'' \<longrightarrow>
        call_class PymatgenStructure E f1 = (Inl e1, [PymStructureFromFile f1]))
   \<and> (pymatgen_importable E \<and> pym_Structure_from_file E f2 = Inl e2
        \<and> isinstance e2 ''ValueError'' \<and> pym_Molecule_from_file E f2 = Inl e3 \<longrightarrow>
        call_class PymatgenStructure E f2 =
          (Inl e3, [PymStructureFromFile f2, PymMoleculeFromFile f2]))"
  by (simp add: call_class_Ase call_class_Pymatgen)

text \<open>
  A missing file under both adapters, and a file that neither pymatgen reader can
  decode.
\<close>

theorem reader_errors_propagate_witness:
  "ase_importable (env True True) \<and> pymatgen_importable (env True True)
   \<and> ase_io_read (env True True) ''missing.cif'' = Inl missing_file_error
   \<and> call_class AseStructure (env True True) ''missing.cif'' =
       (Inl missing_file_error, [AseIoRead ''missing.cif''])
   \<and> pym_Structure_from_file (env True True) ''missing.cif'' = Inl missing_file_error
   \<and> \<not> isinstance missing_file_error ''ValueError''
   \<and> call_class PymatgenStructure (env True True) ''missing.cif'' =
       (Inl missing_file_error, [PymStructureFromFile ''missing.cif''])
   \<and> pym_Structure_from_file (env True True) ''garbage.bin'' = Inl decode_error
   \<and> isinstance decode_error ''ValueError''
   \<and> pym_Molecule_from_file (env True True) ''garbage.bin'' = Inl decode_error
   \<and> call_class PymatgenStructure (env True True) ''garbage.bin'' =
       (Inl decode_error, [PymStructureFromFile ''garbage.bin'', PymMoleculeFromFile ''garbage.bin''])"
  using reader_errors_propagate [of "env True True" "''missing.cif''" missing_file_error
      "''missing.cif''" missing_file_error "''garbage.bin''" decode_error decode_error]
  by (simp add: env_def read_ase_def read_structure_def read_molecule_def
      missing_file_error_def decode_error_def isinstance_def)

text \<open>
  C6 does not hold of the code: \<^verbatim>\<open>PymatgenStructure.__init__\<close> ends with
  \<^verbatim>\<open>return(self)\<close>, and Python raises TypeError when \<^verbatim>\<open>__init__\<close> returns an object.
  On \<^verbatim>\<open>POSCAR\<close>, which pymatgen reads, the initialiser fills the object with the parsed
  structure, and \<^verbatim>\<open>PymatgenStructure.from_file\<close> raises TypeError instead of returning
  it.
\<close>

theorem pymatgen_from_file_raises_type_error:
  "pym_Structure_from_file (env False True) ''POSCAR'' = Inr bulk_structure
   \<and> fst (PymatgenStructure_init (env False True) ''POSCAR'') = Inr (bulk_pym_obj, ReturnsObject)
   \<and> from_file PymatgenStructure (env False True) ''POSCAR'' =
       (Inl (TypeError ''__init__() should return None''), [PymStructureFromFile ''POSCAR''])"
  by (simp add: from_file_def call_class_def PymatgenStructure_init_def env_def
      read_structure_def bulk_pym_obj_def)

subsection \<open>Module loading and the factory\<close>

text \<open>
  C3. When neither ASE nor pymatgen can be imported, loading the module raises
  NotImplementedError, so every use of the module by a client ends in that error; and
  calling either class in this configuration raises as well, so that no structure
  object is created.
\<close>

theorem no_library_configuration_error:
  assumes "\<not> ase_importable E" and "\<not> pymatgen_importable E"
  shows "fst (load_module E) = Inl NotImplementedError
       \<and> fst (use_module E req) = Inl NotImplementedError
       \<and> (\<exists>e. fst (call_class c E filename) = Inl e)"
proof -
  have l: "fst (load_module E) = Inl NotImplementedError"
    using assms by (simp add: load_module_cases)
  have u: "fst (use_module E req) = Inl NotImplementedError"
    using l by (simp add: use_module_def)
  have c: "\<exists>e. fst (call_class c E filename) = Inl e"
    using assms by (cases c) (simp_all add: call_class_Ase call_class_Pymatgen)
  from l u c show ?thesis by blast
qed

text \<open>
  The environment without any library.
\<close>

theorem no_library_configuration_error_witness:
  "\<not> ase_importable (env False False) \<and> \<not> pymatgen_importable (env False False)
   \<and> fst (load_module (env False False)) = Inl NotImplementedError
   \<and> fst (use_module (env False False) (Factory ''POSCAR'')) = Inl NotImplementedError
   \<and> fst (call_class AseStructure (env False False) ''POSCAR'') = Inl (ImportError ''ase'')"
proof -
  have a: "\<not> ase_importable (env False False)" by (simp add: env_def)
  have p: "\<not> pymatgen_importable (env False False)" by (simp add: env_def)
  show ?thesis
    using a p no_library_configuration_error [OF a p, of "Factory ''POSCAR''" AseStructure "''POSCAR''"]
    by (simp add: call_class_Ase)
qed

text \<open>
  C10. After the module has loaded, \<^verbatim>\<open>_has_ase\<close> is true or \<^verbatim>\<open>_has_pymatgen\<close> is
  bound and true. So \<^verbatim>\<open>structure_from_file\<close> never returns None by falling through:
  for every file name its outcome is that of \<^verbatim>\<open>AseStructure.from_file\<close> when
  \<^verbatim>\<open>_has_ase\<close> is true and that of \<^verbatim>\<open>PymatgenStructure.from_file\<close> otherwise, and
  every call it makes into a library is made by that one adapter.
\<close>

theorem structure_from_file_no_fallthrough:
  assumes "fst (load_module E) = Inr g"
  shows "fst (structure_from_file g E f) \<noteq> Inr None
       \<and> (has_ase g \<or> has_pymatgen g = Some True)
       \<and> (has_ase g \<longrightarrow>
            structure_from_file g E f = apfst (map_sum id Some) (from_file AseStructure E f))
       \<and> (\<not> has_ase g \<longrightarrow>
            structure_from_file g E f = apfst (map_sum id Some) (from_file PymatgenStructure E f))
       \<and> (\<forall>c \<in> set (snd (structure_from_file g E f)).
            adapter_of c = (if has_ase g then AseStructure else PymatgenStructure))"
proof -
  from assms consider
    (ase) "ase_importable E" "g = \<lparr>has_reader = True, has_ase = True, has_pymatgen = None\<rparr>"
  | (pym) "\<not> ase_importable E" "pymatgen_importable E"
      "g = \<lparr>has_reader = True, has_ase = False, has_pymatgen = Some True\<rparr>"
    by (auto simp: load_module_Inr)
  then show ?thesis
  proof cases
    case ase
    show ?thesis
      using ase calls_of_Ase [of _ E f]
      by (auto simp: structure_from_file_def from_file_def map_sum_def split: sum.splits)
  next
    case pym
    show ?thesis
      using pym calls_of_Pymatgen [of _ E f]
      by (auto simp: structure_from_file_def from_file_def map_sum_def split: sum.splits)
  qed
qed

text \<open>
  A module loaded with pymatgen only, reading a file without a cell: both library
  calls are pymatgen's.
\<close>

theorem structure_from_file_no_fallthrough_witness:
  "fst (load_module (env False True)) = Inr globals_pymatgen
   \<and> fst (structure_from_file globals_pymatgen (env False True) ''water.xyz'') \<noteq> Inr None
   \<and> \<not> has_ase globals_pymatgen \<and> has_pymatgen globals_pymatgen = Some True
   \<and> snd (structure_from_file globals_pymatgen (env False True) ''water.xyz'') =
       [PymStructureFromFile ''water.xyz'', PymMoleculeFromFile ''water.xyz'']
   \<and> adapter_of (PymStructureFromFile ''water.xyz'') = PymatgenStructure
   \<and> adapter_of (PymMoleculeFromFile ''water.xyz'') = PymatgenStructure"
proof -
  have l: "fst (load_module (env False True)) = Inr globals_pymatgen"
    by (simp add: load_examples)
  have g: "\<not> has_ase globals_pymatgen" "has_pymatgen globals_pymatgen = Some True"
    by (simp_all add: globals_pymatgen_def)
  have s: "snd (structure_from_file globals_pymatgen (env False True) ''water.xyz'') =
       [PymStructureFromFile ''water.xyz'', PymMoleculeFromFile ''water.xyz'']"
    by (simp add: structure_from_file_def g from_file_def call_class_Pymatgen env_def
        read_structure_def read_molecule_def no_cell_error_def isinstance_def)
  have n: "fst (structure_from_file globals_pymatgen (env False True) ''water.xyz'') \<noteq> Inr None"
    using structure_from_file_no_fallthrough [OF l, of "''water.xyz''"] by (rule conjunct1)
  show ?thesis
    using l g s n by simp
qed

text \<open>
  C2, as stated, fails: the claim has the factory return an \<^verbatim>\<open>AseStructure\<close> for
  every file name whenever ASE was importable. With ASE importable and a file that
  \<^verbatim>\<open>ase.io.read\<close> cannot read, the factory raises the reader's error and returns no
  object.
\<close>

theorem factory_raises_on_unreadable_file:
  "ase_importable (env True True)
   \<and> fst (load_module (env True True)) = Inr globals_ase
   \<and> structure_from_file globals_ase (env True True) ''missing.cif'' =
       (Inl missing_file_error, [AseIoRead ''missing.cif''])"
  by (simp add: load_examples structure_from_file_def from_file_def call_class_Ase)
     (simp add: globals_ase_def env_def read_ase_def)

text \<open>
  C2, amended. For every file name, \<^verbatim>\<open>structure_from_file\<close> picks one
  implementation by the availability of the libraries. Whenever ASE was importable at
  module load, its outcome is that of \<^verbatim>\<open>AseStructure.from_file\<close>: an \<^verbatim>\<open>AseStructure\<close>
  holding the atoms read when \<^verbatim>\<open>ase.io.read\<close> succeeds, the reader's error otherwise.
  When ASE was not importable, pymatgen was, and the outcome is that of
  \<^verbatim>\<open>PymatgenStructure.from_file\<close>.
\<close>

theorem structure_from_file_picks_by_availability:
  assumes "fst (load_module E) = Inr g"
  shows "(ase_importable E \<longrightarrow>
            structure_from_file g E f = apfst (map_sum id Some) (from_file AseStructure E f)
            \<and> (case ase_io_read E f of
                 Inr a \<Rightarrow>
                   \<exists>self. fst (structure_from_file g E f) = Inr (Some self)
                     \<and> obj_class self = AseStructure \<and> structure_field self = AtomsObj a
               | Inl e \<Rightarrow> fst (structure_from_file g E f) = Inl e))
       \<and> (\<not> ase_importable E \<longrightarrow>
            pymatgen_importable E
            \<and> structure_from_file g E f =
                apfst (map_sum id Some) (from_file PymatgenStructure E f))"
proof -
  from assms consider
    (ase) "ase_importable E" "g = \<lparr>has_reader = True, has_ase = True, has_pymatgen = None\<rparr>"
  | (pym) "\<not> ase_importable E" "pymatgen_importable E"
      "g = \<lparr>has_reader = True, has_ase = False, has_pymatgen = Some True\<rparr>"
    by (auto simp: load_module_Inr)
  then show ?thesis
  proof cases
    case ase
    then show ?thesis
      by (simp add: structure_from_file_def from_file_def call_class_Ase split: sum.splits)
  next
    case pym
    then show ?thesis
      by (simp add: structure_from_file_def)
  qed
qed

text \<open>
  With ASE, the crystal is returned as an \<^verbatim>\<open>AseStructure\<close>; with pymatgen only, the
  error of a missing file is that of the pymatgen adapter.
\<close>

theorem structure_from_file_picks_by_availability_witness:
  "fst (load_module (env True True)) = Inr globals_ase
   \<and> ase_importable (env True True)
   \<and> structure_from_file globals_ase (env True True) ''POSCAR'' =
       (Inr (Some bulk_ase_obj), [AseIoRead ''POSCAR''])
   \<and> fst (load_module (env False True)) = Inr globals_pymatgen
   \<and> \<not> ase_importable (env False True)
   \<and> pymatgen_importable (env False True)
   \<and> structure_from_file globals_pymatgen (env False True) ''missing.cif'' =
       (Inl missing_file_error, [PymStructureFromFile ''missing.cif''])"
proof -
  have la: "fst (load_module (env True True)) = Inr globals_ase"
    by (simp add: load_examples)
  have lp: "fst (load_module (env False True)) = Inr globals_pymatgen"
    by (simp add: load_examples)
  have i: "ase_importable (env True True)" "\<not> ase_importable (env False True)"
    by (simp_all add: env_def)
  have a: "from_file AseStructure (env True True) ''POSCAR'' =
       (Inr bulk_ase_obj, [AseIoRead ''POSCAR''])"
    by (simp add: from_file_def call_class_Ase env_def read_ase_def bulk_ase_obj_def
        bulk_atoms_def)
  have p: "from_file PymatgenStructure (env False True) ''missing.cif'' =
       (Inl missing_file_error, [PymStructureFromFile ''missing.cif''])"
    by (simp add: from_file_def call_class_Pymatgen env_def read_structure_def
        missing_file_error_def isinstance_def)
  show ?thesis
    using la lp i
      structure_from_file_picks_by_availability [OF la, of "''POSCAR''"]
      structure_from_file_picks_by_availability [OF lp, of "''missing.cif''"]
    by (simp add: a p)
qed

end
